theory Spec2Isabelle
  imports Complex_Main
begin

section \<open>Solar-Prediction: a shallow embedding of app.py\<close>

text \<open>
  The program is one Streamlit script: seven \<open>st.number_input\<close> widgets, a button, a
  cached model loader \<open>load_model\<close>, and a click handler that builds a 1x7 array, calls
  the model's \<open>predict\<close>, and renders the result or an error.

  What is embedded from the script: \<open>load_model\<close> (lines 108-117), the widget
  configurations (lines 175-234) and the output block (lines 251-286).
  What the script only calls is modelled by its contract and named as such:
  the filesystem (\<open>Path.exists\<close>, \<open>joblib.load\<close>), \<open>st.cache_resource\<close>,
  \<open>st.number_input\<close>, numpy's \<open>.item()\<close>, Python's \<open>format\<close>, and the artifact's own
  \<open>predict\<close>, which is a parameter of the handler.
\<close>

subsection \<open>Python values: floats and exceptions\<close>

text \<open>
  A Python float is a finite value, a signed zero, an infinity or NaN. The script does no
  arithmetic on floats (it compares, stores and formats them), so a finite float is
  modelled by its exact value, a rational; every binary64 value is one.
  Widget values are finite and are plain \<open>rat\<close>; what a model returns is a \<open>pyfloat\<close>.
\<close>

datatype pyfloat = Finite rat | NegZero | PosInf | NegInf | NaN

text \<open>
  The exception classes the script tells apart. \<open>OtherException n\<close> is a class named
  \<open>n\<close> below \<open>Exception\<close> and not below \<open>FileNotFoundError\<close>; \<open>NonException n\<close>
  is a class below \<open>BaseException\<close> only (\<open>KeyboardInterrupt\<close>, \<open>SystemExit\<close>).
  The string is \<open>str(e)\<close>.
\<close>

datatype exc_class = FileNotFoundError | ValueError | OtherException string | NonException string

datatype py_exception = Raised exc_class string

fun exc_str :: "py_exception \<Rightarrow> string" where
  "exc_str (Raised c msg) = msg"

fun isinstance_FileNotFoundError :: "py_exception \<Rightarrow> bool" where
  "isinstance_FileNotFoundError (Raised FileNotFoundError msg) = True"
| "isinstance_FileNotFoundError (Raised c msg) = False"

fun isinstance_Exception :: "py_exception \<Rightarrow> bool" where
  "isinstance_Exception (Raised (NonException n) msg) = False"
| "isinstance_Exception (Raised c msg) = True"

subsection \<open>The filesystem and the process\<close>

text \<open>
  A filesystem has a current working directory, the directory that holds app.py, and
  entries at absolute paths. An entry is what \<open>joblib.load\<close> does with it: it
  deserialises to a model, or it raises (a corrupt file, a directory).
\<close>

record 'm filesystem =
  cwd :: string
  script_dir :: string
  entries :: "string \<Rightarrow> (py_exception + 'm) option"

text \<open>The operating system resolves a relative path against the working directory.\<close>

definition is_absolute :: "string \<Rightarrow> bool" where
  "is_absolute p = (case p of [] \<Rightarrow> False | c # _ \<Rightarrow> c = CHR ''/'')"

definition absolute :: "string \<Rightarrow> string \<Rightarrow> string" where
  "absolute dir p = (if is_absolute p then p else dir @ ''/'' @ p)"

text \<open>
  What the process does to the outside world is recorded in order: an existence check,
  a file read, a call of the model's \<open>predict\<close> with the array it was given.
\<close>

datatype event = Exists string | Load string | PredictCall nat "rat list list"

text \<open>
  A loaded model is an object in memory: its identity (a fresh number at each
  deserialisation) and its content. The process keeps the resource cache of
  \<open>st.cache_resource\<close>, keyed by the arguments of the call (\<open>None\<close> is the call
  \<open>load_model()\<close>), the next free object identity, and the trace of events.
\<close>

type_synonym 'm loaded = "nat \<times> 'm"

record 'm process =
  cache :: "string option \<Rightarrow> 'm loaded option"
  next_id :: nat
  trace :: "event list"

definition log :: "event \<Rightarrow> 'm process \<Rightarrow> 'm process" where
  "log e s = s\<lparr>trace := trace s @ [e]\<rparr>"

definition start :: "'m process" where
  "start = \<lparr>cache = (\<lambda>k. None), next_id = 0, trace = []\<rparr>"

text \<open>\<open>path.exists()\<close>: one existence check of the resolved path.\<close>

definition path_exists :: "'m filesystem \<Rightarrow> string \<Rightarrow> 'm process \<Rightarrow> bool \<times> 'm process" where
  "path_exists fs path s =
     (let p = absolute (cwd fs) path in (entries fs p \<noteq> None, log (Exists p) s))"

definition errno2 :: "string \<Rightarrow> string" where
  "errno2 p = ''[Errno 2] No such file or directory: '' @ [CHR 0x27] @ p @ [CHR 0x27]"

text \<open>\<open>joblib.load(path)\<close>: one read; a new object on success.\<close>

definition joblib_load ::
  "'m filesystem \<Rightarrow> string \<Rightarrow> 'm process \<Rightarrow> (py_exception + 'm loaded) \<times> 'm process" where
  "joblib_load fs path s =
     (let p = absolute (cwd fs) path; s1 = log (Load p) s in
      case entries fs p of
        None \<Rightarrow> (Inl (Raised FileNotFoundError (errno2 path)), s1)
      | Some (Inl e) \<Rightarrow> (Inl e, s1)
      | Some (Inr m) \<Rightarrow> (Inr (next_id s1, m), s1\<lparr>next_id := Suc (next_id s1)\<rparr>))"

subsection \<open>The model loader\<close>

definition default_model_path :: string where
  "default_model_path = ''system_production_model.pkl''"

definition not_found_message :: "string \<Rightarrow> string" where
  "not_found_message model_path =
     ''Model file '' @ [CHR 0x27] @ model_path @ [CHR 0x27] @ '' not found. '' @
     ''Make sure it is in the same folder as app.py.''"

text \<open>The body of \<open>load_model\<close>, lines 110-117.\<close>

definition load_model ::
  "'m filesystem \<Rightarrow> string \<Rightarrow> 'm process \<Rightarrow> (py_exception + 'm loaded) \<times> 'm process" where
  "load_model fs model_path s =
     (case path_exists fs model_path s of
        (found, s1) \<Rightarrow>
          if \<not> found then (Inl (Raised FileNotFoundError (not_found_message model_path)), s1)
          else joblib_load fs model_path s1)"

text \<open>
  \<open>@st.cache_resource\<close>, line 108: a call whose arguments are in the cache returns the
  cached object and does not run the body; otherwise the body runs, and its result is
  stored when it returns. A body that raises stores nothing.
\<close>

definition load_model_cached ::
  "'m filesystem \<Rightarrow> string option \<Rightarrow> 'm process \<Rightarrow> (py_exception + 'm loaded) \<times> 'm process" where
  "load_model_cached fs arg s =
     (case cache s arg of
        Some inst \<Rightarrow> (Inr inst, s)
      | None \<Rightarrow>
          (case load_model fs (case arg of None \<Rightarrow> default_model_path | Some p \<Rightarrow> p) s of
             (Inl e, s1) \<Rightarrow> (Inl e, s1)
           | (Inr inst, s1) \<Rightarrow> (Inr inst, s1\<lparr>cache := (cache s1)(arg \<mapsto> inst)\<rparr>)))"

subsection \<open>Formatting a float with two decimals\<close>

text \<open>
  Python's \<open>format(x, '.2f')\<close> and \<open>format(x, ',.2f')\<close>: the exact value is rounded to
  the nearest multiple of 1/100, a tie to the even one; the sign is the sign of the
  float (a negative value that rounds to zero prints \<open>-0.00\<close>); with \<open>,\<close> the integer
  digits are grouped in threes. An infinity prints \<open>inf\<close>, NaN prints \<open>nan\<close>.
\<close>

definition digit_char :: "nat \<Rightarrow> char" where
  "digit_char d = ''0123456789'' ! d"


fun decimal :: "nat \<Rightarrow> string" where
  "decimal n = (if n < 10 then [digit_char n] else decimal (n div 10) @ [digit_char (n mod 10)])"

declare decimal.simps [simp del]

text \<open>Grouping works from the least significant digit, so on the reversed digits.\<close>

fun group3 :: "string \<Rightarrow> string" where
  "group3 (a # b # c # d # ds) = a # b # c # CHR '','' # group3 (d # ds)"
| "group3 ds = ds"

definition thousands :: "string \<Rightarrow> string" where
  "thousands ds = rev (group3 (rev ds))"

definition round_half_even :: "rat \<Rightarrow> int" where
  "round_half_even q =
     (let f = \<lfloor>q\<rfloor>; r = q - of_int f in
      if r < 1 / 2 then f else if 1 / 2 < r then f + 1 else if even f then f else f + 1)"

definition format_fixed2 :: "bool \<Rightarrow> bool \<Rightarrow> rat \<Rightarrow> string" where
  "format_fixed2 grouping negative magnitude =
     (let n = nat (round_half_even (magnitude * 100));
          whole = decimal (n div 100);
          cents = [digit_char (n mod 100 div 10), digit_char (n mod 10)] in
      (if negative then ''-'' else []) @ (if grouping then thousands whole else whole) @
      ''.'' @ cents)"

fun format_2f :: "bool \<Rightarrow> pyfloat \<Rightarrow> string" where
  "format_2f grouping (Finite q) = format_fixed2 grouping (q < 0) \<bar>q\<bar>"
| "format_2f grouping NegZero = format_fixed2 grouping True 0"
| "format_2f grouping PosInf = ''inf''"
| "format_2f grouping NegInf = ''-inf''"
| "format_2f grouping NaN = ''nan''"



subsection \<open>The input widgets\<close>









text \<open>The seven values the script reads from the widgets on a run.\<close>

record inputs =
  date_hour :: rat
  wind_speed :: rat
  sunshine :: rat
  air_pressure :: rat
  radiation :: rat
  air_temperature :: rat
  relative_humidity :: rat


subsection \<open>The output block\<close>

text \<open>What the script renders: one constructor for each Streamlit call it makes.\<close>

datatype ui_element =
    Markdown string
  | Metric string string
  | Success string
  | Expander string bool "ui_element list"
  | Write "rat list list"
  | Error string
  | ExceptionBox py_exception
  | Info string

text \<open>Lines 254-264: \<open>np.array\<close> of one row of seven values.\<close>

definition features :: "inputs \<Rightarrow> rat list list" where
  "features inp =
     [[date_hour inp, wind_speed inp, sunshine inp, air_pressure inp, radiation inp,
       air_temperature inp, relative_humidity inp]]"

text \<open>
  numpy's \<open>.item()\<close>: the one element of an array of size 1, a \<open>ValueError\<close> for any
  other size. An array is given by its elements.
\<close>

fun item :: "pyfloat list \<Rightarrow> py_exception + pyfloat" where
  "item [x] = Inr x"
| "item xs = Inl (Raised ValueError ''can only convert an array of size 1 to a Python scalar'')"

definition metric_label :: string where
  "metric_label = ''Predicted System / Solar Energy''"

definition success_message :: "rat \<Rightarrow> string" where
  "success_message dh =
     [CHR 0xE2, CHR 0x9C, CHR 0x85] @
     '' Prediction generated successfully for Date-Hour (NMT): **'' @
     format_2f False (Finite dh) @ ''**''"

definition generic_error_message :: string where
  "generic_error_message =
     [CHR 0xF0, CHR 0x9F, CHR 0x9A, CHR 0xA8] @
     '' An error occurred while generating prediction.''"

definition info_message :: string where
  "info_message = ''Click **Predict Solar Energy** after entering all inputs.''"

text \<open>
  The body of the \<open>try\<close>, lines 253-278. The artifact's \<open>predict\<close> is a parameter: given
  the model and the array it returns an array or raises.
\<close>

type_synonym 'm predictor = "'m \<Rightarrow> rat list list \<Rightarrow> py_exception + pyfloat list"

definition try_block ::
  "'m predictor \<Rightarrow> 'm filesystem \<Rightarrow> inputs \<Rightarrow> 'm process \<Rightarrow>
   (py_exception + ui_element list) \<times> 'm process" where
  "try_block predict fs inp s =
     (case load_model_cached fs None s of
        (Inl e, s1) \<Rightarrow> (Inl e, s1)
      | (Inr (i, model), s1) \<Rightarrow>
          (let s2 = log (PredictCall i (features inp)) s1 in
           case predict model (features inp) of
             Inl e \<Rightarrow> (Inl e, s2)
           | Inr result \<Rightarrow>
               (case item result of
                  Inl e \<Rightarrow> (Inl e, s2)
                | Inr prediction \<Rightarrow>
                    (Inr [Metric metric_label (format_2f True prediction),
                          Success (success_message (date_hour inp)),
                          Expander ''View raw input vector'' False [Write (features inp)]],
                     s2))))"

text \<open>
  Lines 280-284. An exception that neither clause matches leaves the script.
\<close>

definition except_clauses :: "py_exception \<Rightarrow> py_exception + ui_element list" where
  "except_clauses e =
     (if isinstance_FileNotFoundError e then Inr [Error (exc_str e)]
      else if isinstance_Exception e then Inr [Error generic_error_message, ExceptionBox e]
      else Inl e)"

text \<open>Lines 251-286: what one run of the script puts below the heading of the output column.\<close>

definition prediction_output ::
  "'m predictor \<Rightarrow> 'm filesystem \<Rightarrow> inputs \<Rightarrow> bool \<Rightarrow> 'm process \<Rightarrow>
   (py_exception + ui_element list) \<times> 'm process" where
  "prediction_output predict fs inp predict_clicked s =
     (if predict_clicked then
        (case try_block predict fs inp s of
           (Inl e, s1) \<Rightarrow> (except_clauses e, s1)
         | (Inr shown, s1) \<Rightarrow> (Inr shown, s1))
      else (Inr [Info info_message], s))"

text \<open>Lines 244-288: the whole output column, with its fixed markup.\<close>

definition output_col ::
  "'m predictor \<Rightarrow> 'm filesystem \<Rightarrow> inputs \<Rightarrow> bool \<Rightarrow> 'm process \<Rightarrow>
   (py_exception + ui_element list) \<times> 'm process" where
  "output_col predict fs inp predict_clicked s =
     (case prediction_output predict fs inp predict_clicked s of
        (Inl e, s1) \<Rightarrow> (Inl e, s1)
      | (Inr shown, s1) \<Rightarrow>
          (Inr ([Markdown (''<div class='' @ [CHR 0x22] @ ''glass-card'' @ [CHR 0x22] @ ''>''),
                 Markdown (''<div class='' @ [CHR 0x22] @ ''section-title'' @ [CHR 0x22] @
                   ''>Prediction Output</div>'')] @
                shown @ [Markdown ''</div>'']), s1))"



subsection \<open>Concrete scenarios\<close>

text \<open>
  An artifact for the scenarios: its \<open>predict\<close> returns a fixed array or raises a fixed
  exception, whatever the input.
\<close>

datatype artifact = Returns "pyfloat list" | Raises py_exception

fun run_artifact :: "artifact \<Rightarrow> rat list list \<Rightarrow> py_exception + pyfloat list" where
  "run_artifact (Returns ys) x = Inr ys"
| "run_artifact (Raises e) x = Inl e"

definition model_file :: string where
  "model_file = ''/srv/solar/system_production_model.pkl''"

text \<open>The script started in its own directory, with the given entry at the model's path.\<close>

definition fs_with :: "py_exception + artifact \<Rightarrow> artifact filesystem" where
  "fs_with entry =
     \<lparr>cwd = ''/srv/solar'', script_dir = ''/srv/solar'',
      entries = (\<lambda>p. if p = model_file then Some entry else None)\<rparr>"

text \<open>The same directory without the file.\<close>

definition fs_without :: "artifact filesystem" where
  "fs_without =
     \<lparr>cwd = ''/srv/solar'', script_dir = ''/srv/solar'', entries = (\<lambda>p. None)\<rparr>"

text \<open>The file beside app.py, the script started from another directory.\<close>

definition fs_elsewhere :: "artifact \<Rightarrow> artifact filesystem" where
  "fs_elsewhere m =
     \<lparr>cwd = ''/home/user'', script_dir = ''/srv/solar'',
      entries = (\<lambda>p. if p = model_file then Some (Inr m) else None)\<rparr>"


text \<open>The inputs of the specification's scenario, which are the widgets' defaults.\<close>

definition scenario_inputs :: inputs where
  "scenario_inputs =
     \<lparr>date_hour = 1, wind_speed = 7 / 2, sunshine = 6, air_pressure = 1013, radiation = 650,
      air_temperature = 28, relative_humidity = 45\<rparr>"

section \<open>Properties\<close>

subsection \<open>The two-decimal format\<close>












subsection \<open>Evaluating the loader and the output block\<close>

lemmas loader_defs =
  load_model_cached_def load_model_def path_exists_def joblib_load_def absolute_def
  is_absolute_def log_def Let_def

lemmas scenario_defs =
  fs_with_def fs_without_def fs_elsewhere_def model_file_def default_model_path_def
  start_def scenario_inputs_def

lemmas output_defs =
  prediction_output_def try_block_def except_clauses_def features_def

lemma cached_hit: "cache s arg = Some inst \<Longrightarrow> load_model_cached fs arg s = (Inr inst, s)"
  by (simp add: load_model_cached_def)


lemma scenario_load:
  "load_model_cached (fs_with (Inr m)) None start =
     (Inr (0, m),
      \<lparr>cache = (\<lambda>k. None)(None \<mapsto> (0, m)), next_id = 1,
       trace = [Exists model_file, Load model_file]\<rparr>)"
  by (simp add: loader_defs scenario_defs)

subsection \<open>The array given to predict\<close>

text \<open>
  C1. On every click, after the loader has run, the script calls \<open>predict\<close> exactly once
  when the loader returned a model and not at all when it raised; the array of that call
  is one row of the seven widget values in the order date_hour, wind_speed, sunshine,
  air_pressure, radiation, air_temperature, relative_humidity. What the click shows
  depends on \<open>predict\<close> through its value at that array only.
\<close>

theorem predict_receives_seven_in_order:
  assumes "load_model_cached fs None s = (r, s1)"
  shows "trace (snd (prediction_output predict fs inp True s)) =
     trace s1 @ (case r of Inl e \<Rightarrow> [] | Inr (i, m) \<Rightarrow>
        [PredictCall i [[date_hour inp, wind_speed inp, sunshine inp, air_pressure inp,
           radiation inp, air_temperature inp, relative_humidity inp]]]) \<and>
     ((\<forall>m. predict m [[date_hour inp, wind_speed inp, sunshine inp, air_pressure inp,
           radiation inp, air_temperature inp, relative_humidity inp]] =
          predict' m [[date_hour inp, wind_speed inp, sunshine inp, air_pressure inp,
           radiation inp, air_temperature inp, relative_humidity inp]]) \<longrightarrow>
      prediction_output predict fs inp True s = prediction_output predict' fs inp True s)"
  using assms
  by (auto simp: output_defs log_def Let_def split: sum.splits prod.splits)

theorem predict_receives_seven_in_order_witness:
  "trace (snd (prediction_output run_artifact (fs_with (Inr (Returns [Finite 5])))
      scenario_inputs True start)) =
   [Exists model_file, Load model_file, PredictCall 0 [[1, 7 / 2, 6, 1013, 650, 28, 45]]]"
  using predict_receives_seven_in_order
    [OF scenario_load, of run_artifact "Returns [Finite 5]" scenario_inputs run_artifact]
  by (simp add: scenario_inputs_def)

subsection \<open>A missing artifact\<close>

text \<open>
  C2, as the code has it. When no model is cached for the call and nothing exists at the
  path, the loader raises \<open>FileNotFoundError\<close> with the message that quotes the path as
  it was passed; it has checked the path once, read nothing, and cached nothing. On a
  click in that state the output block shows that message and nothing else.
\<close>

theorem missing_artifact_reported:
  assumes "cache s arg = None"
    and "path = (case arg of None \<Rightarrow> default_model_path | Some p \<Rightarrow> p)"
    and "entries fs (absolute (cwd fs) path) = None"
  shows "load_model_cached fs arg s =
      (Inl (Raised FileNotFoundError
         (''Model file '' @ [CHR 0x27] @ path @ [CHR 0x27] @
          '' not found. Make sure it is in the same folder as app.py.'')),
       s\<lparr>trace := trace s @ [Exists (absolute (cwd fs) path)]\<rparr>) \<and>
     (arg = None \<longrightarrow>
      prediction_output predict fs inp True s =
      (Inr [Error (''Model file '' @ [CHR 0x27] @ path @ [CHR 0x27] @
          '' not found. Make sure it is in the same folder as app.py.'')],
       s\<lparr>trace := trace s @ [Exists (absolute (cwd fs) path)]\<rparr>))"
proof -
  have l: "load_model_cached fs arg s =
      (Inl (Raised FileNotFoundError (not_found_message path)),
       s\<lparr>trace := trace s @ [Exists (absolute (cwd fs) path)]\<rparr>)"
    using assms by (simp add: load_model_cached_def load_model_def path_exists_def log_def Let_def)
  have m: "not_found_message path = ''Model file '' @ [CHR 0x27] @ path @ [CHR 0x27] @
          '' not found. Make sure it is in the same folder as app.py.''"
    by (simp add: not_found_message_def)
  show ?thesis
    using l unfolding m
    by (auto simp: prediction_output_def try_block_def except_clauses_def)
qed

text \<open>The first click of a process started in a directory without the file.\<close>

theorem missing_artifact_reported_witness:
  "load_model_cached fs_without None start =
      (Inl (Raised FileNotFoundError
         (''Model file '' @ [CHR 0x27] @ ''system_production_model.pkl'' @ [CHR 0x27] @
          '' not found. Make sure it is in the same folder as app.py.'')),
       start\<lparr>trace := [Exists model_file]\<rparr>) \<and>
   prediction_output run_artifact fs_without scenario_inputs True start =
      (Inr [Error (''Model file '' @ [CHR 0x27] @ ''system_production_model.pkl'' @ [CHR 0x27] @
          '' not found. Make sure it is in the same folder as app.py.'')],
       start\<lparr>trace := [Exists model_file]\<rparr>)"
  using missing_artifact_reported
    [of start None "''system_production_model.pkl''" fs_without run_artifact scenario_inputs]
  by (simp add: scenario_defs absolute_def is_absolute_def)

lemma round_five: "round_half_even (5 * 100) = 500"
  by code_simp

lemma round_one: "round_half_even (1 * 100) = 100"
  by code_simp

lemma format_five: "format_2f True (Finite 5) = ''5.00''"
  using round_five
  by (simp add: format_fixed2_def decimal.simps thousands_def digit_char_def)

lemma format_one: "format_2f False (Finite 1) = ''1.00''"
  using round_one
  by (simp add: format_fixed2_def decimal.simps thousands_def digit_char_def)

text \<open>
  Not for every path that does not exist: the model was loaded while the file was there,
  the file is gone, and the loader still returns the model; the click shows a prediction.
\<close>

theorem missing_artifact_counterexample:
  "entries fs_without (absolute (cwd fs_without) default_model_path) = None \<and>
   fst (load_model_cached fs_without None
          (snd (load_model_cached (fs_with (Inr (Returns [Finite 5]))) None start))) =
     Inr (0, Returns [Finite 5]) \<and>
   fst (prediction_output run_artifact fs_without scenario_inputs True
          (snd (load_model_cached (fs_with (Inr (Returns [Finite 5]))) None start))) =
     Inr [Metric ''Predicted System / Solar Energy'' ''5.00'',
          Success ([CHR 0xE2, CHR 0x9C, CHR 0x85] @
            '' Prediction generated successfully for Date-Hour (NMT): **1.00**''),
          Expander ''View raw input vector'' False
            [Write [[1, 7 / 2, 6, 1013, 650, 28, 45]]]]"
  by (simp add: scenario_load cached_hit fs_without_def prediction_output_def try_block_def
      features_def metric_label_def success_message_def format_five format_one
      scenario_inputs_def del: format_2f.simps)

subsection \<open>The cache\<close>






subsection \<open>An exception from predict\<close>





subsection \<open>A successful prediction\<close>








subsection \<open>Repeated predictions\<close>




subsection \<open>Widget bounds\<close>






subsection \<open>Which handler takes which exception\<close>

text \<open>
  C8. The handlers go by the class of the exception, not by where it was raised: a
  \<open>FileNotFoundError\<close> that \<open>predict\<close> raises is shown as its bare message, as a missing
  artifact is, with neither the generic message nor the exception box.
\<close>

theorem inference_file_not_found_shown_bare:
  assumes "load_model_cached fs None s = (Inr (i, m), s1)"
    and "predict m (features inp) = Inl (Raised FileNotFoundError msg)"
  shows "prediction_output predict fs inp True s =
      (Inr [Error msg], log (PredictCall i (features inp)) s1)"
  using assms
  by (simp add: prediction_output_def try_block_def except_clauses_def)

text \<open>A model that opens a file of its own at prediction time and does not find it.\<close>

theorem inference_file_not_found_shown_bare_witness:
  "fst (prediction_output run_artifact
      (fs_with (Inr (Raises (Raised FileNotFoundError ''weights.bin''))))
      scenario_inputs True start) = Inr [Error ''weights.bin'']"
  using inference_file_not_found_shown_bare
    [OF scenario_load [of "Raises (Raised FileNotFoundError ''weights.bin'')"],
     of run_artifact scenario_inputs "''weights.bin''"]
  by simp

lemma item_not_one: "length xs \<noteq> 1 \<Longrightarrow>
  item xs = Inl (Raised ValueError ''can only convert an array of size 1 to a Python scalar'')"
  by (cases xs rule: item.cases) simp_all

text \<open>
  C9. When \<open>predict\<close> returns an array that does not have exactly one element, \<open>.item()\<close>
  raises inside the \<open>try\<close>, and the output block shows the generic message with the
  \<open>ValueError\<close>; no element of the array is shown.
\<close>

theorem item_requires_one_element:
  assumes "load_model_cached fs None s = (Inr (i, m), s1)"
    and "predict m (features inp) = Inr result"
    and "length result \<noteq> 1"
  shows "prediction_output predict fs inp True s =
      (Inr [Error generic_error_message,
            ExceptionBox (Raised ValueError
              ''can only convert an array of size 1 to a Python scalar'')],
       log (PredictCall i (features inp)) s1)"
  using assms(1,2) item_not_one [OF assms(3)]
  by (simp add: prediction_output_def try_block_def except_clauses_def)

text \<open>A model that answers with two values.\<close>

theorem item_requires_one_element_witness:
  "fst (prediction_output run_artifact
      (fs_with (Inr (Returns [Finite 5, Finite 6]))) scenario_inputs True start) =
   Inr [Error generic_error_message,
        ExceptionBox (Raised ValueError
          ''can only convert an array of size 1 to a Python scalar'')]"
  using item_requires_one_element
    [OF scenario_load [of "Returns [Finite 5, Finite 6]"],
     of run_artifact scenario_inputs "[Finite 5, Finite 6]"]
  by simp

subsection \<open>Where the default path points\<close>

text \<open>
  C10. With nothing cached, the call \<open>load_model()\<close> is decided by the working directory
  and by what is at \<open>system_production_model.pkl\<close> below it, and by nothing else of the
  filesystem, the directory of app.py included. When nothing is there, the loader raises
  with the message that names the folder of app.py, after one existence check of the
  path below the working directory; when something is there, the existence check and
  the read are both of that path.
\<close>

theorem default_path_relative_to_cwd:
  assumes "cache s None = None"
  shows "(cwd fs' = cwd fs \<and>
      entries fs' (cwd fs @ ''/system_production_model.pkl'') =
      entries fs (cwd fs @ ''/system_production_model.pkl'') \<longrightarrow>
      load_model_cached fs' None s = load_model_cached fs None s) \<and>
     (entries fs (cwd fs @ ''/system_production_model.pkl'') = None \<longrightarrow>
      load_model_cached fs None s =
      (Inl (Raised FileNotFoundError
         (''Model file '' @ [CHR 0x27] @ ''system_production_model.pkl'' @ [CHR 0x27] @
          '' not found. Make sure it is in the same folder as app.py.'')),
       log (Exists (cwd fs @ ''/system_production_model.pkl'')) s)) \<and>
     (entries fs (cwd fs @ ''/system_production_model.pkl'') \<noteq> None \<longrightarrow>
      trace (snd (load_model_cached fs None s)) =
      trace s @ [Exists (cwd fs @ ''/system_production_model.pkl''),
                 Load (cwd fs @ ''/system_production_model.pkl'')])"
  using assms
  by (auto simp: loader_defs default_model_path_def not_found_message_def
      split: option.splits sum.splits)

text \<open>
  The file is beside app.py in /srv/solar, the script was started in /home/user: the
  loader looks in /home/user and reports the file missing.
\<close>

theorem default_path_relative_to_cwd_witness:
  "entries (fs_elsewhere (Returns [Finite 5]))
     (script_dir (fs_elsewhere (Returns [Finite 5])) @ ''/system_production_model.pkl'') =
     Some (Inr (Returns [Finite 5])) \<and>
   load_model_cached (fs_elsewhere (Returns [Finite 5])) None start =
      (Inl (Raised FileNotFoundError
         (''Model file '' @ [CHR 0x27] @ ''system_production_model.pkl'' @ [CHR 0x27] @
          '' not found. Make sure it is in the same folder as app.py.'')),
       log (Exists ''/home/user/system_production_model.pkl'') start)"
  using default_path_relative_to_cwd
    [of start "fs_elsewhere (Returns [Finite 5])" "fs_elsewhere (Returns [Finite 5])"]
  by (simp add: fs_elsewhere_def model_file_def start_def)

end
